theory Spec2Isabelle
  imports Main "HOL-Library.Word"
begin

unbundle bit_operations_syntax

section \<open>The directory lock registry (pkg/blobserver/localdisk/dirlock.go)\<close>

text \<open>
  The package keeps three globals behind \<^verbatim>\<open>dirLockMu\<close>: the counter \<^verbatim>\<open>locksOut\<close>
  (an \<^verbatim>\<open>int64\<close>), the map \<^verbatim>\<open>dirLocks\<close> from directory path to \<^verbatim>\<open>*sync.RWMutex\<close>, and,
  implicitly, the Go heap on which \<^verbatim>\<open>new(sync.RWMutex)\<close> allocates. A pointer to a mutex
  is a natural number; \<open>allocated\<close> counts the mutexes handed out by \<^verbatim>\<open>new\<close> so far, so
  the next allocation returns the pointer \<open>allocated\<close>, which no earlier allocation
  returned. Every function body runs with \<^verbatim>\<open>dirLockMu\<close> held, so each is one atomic
  step on this state.
\<close>

type_synonym rwmutex_ptr = nat

text \<open>
  What the registry's callers do to a \<^verbatim>\<open>sync.RWMutex\<close>: the number of read holds and
  whether the write hold is taken. Blocking belongs to the scheduler; a step of
  the model is the moment the acquisition has been granted.
\<close>

record rwmutex =
  readers :: nat
  writer :: bool

record dirlock_state =
  locksOut :: "64 word"
  dirLocks :: "string \<rightharpoonup> rwmutex_ptr"
  allocated :: nat
  mutexes :: "rwmutex_ptr \<Rightarrow> rwmutex"

definition getDirLock :: "string \<Rightarrow> dirlock_state \<Rightarrow> rwmutex_ptr \<times> dirlock_state" where
  "getDirLock dir s =
     (let s1 = s\<lparr>locksOut := locksOut s + 1\<rparr> in
      case dirLocks s1 dir of
        Some l \<Rightarrow> (l, s1)
      | None \<Rightarrow>
          (let l = allocated s1 in
           (l, s1\<lparr>allocated := Suc l,
                  mutexes := (mutexes s1)(l := \<lparr>readers = 0, writer = False\<rparr>),
                  dirLocks := (dirLocks s1)(dir \<mapsto> l)\<rparr>)))"

definition unlockDirLock :: "dirlock_state \<Rightarrow> dirlock_state" where
  "unlockDirLock s =
     (let s1 = s\<lparr>locksOut := locksOut s - 1\<rparr> in
      if locksOut s1 = 0 then s1\<lparr>dirLocks := Map.empty\<rparr> else s1)"

datatype unlocker = keepLock rwmutex_ptr | deleteLock rwmutex_ptr

fun mu :: "unlocker \<Rightarrow> rwmutex_ptr" where
  "mu (keepLock l) = l"
| "mu (deleteLock l) = l"

definition RLock :: "rwmutex_ptr \<Rightarrow> dirlock_state \<Rightarrow> dirlock_state" where
  "RLock l s = s\<lparr>mutexes := (mutexes s)(l := (mutexes s l)\<lparr>readers := Suc (readers (mutexes s l))\<rparr>)\<rparr>"

definition RUnlock :: "rwmutex_ptr \<Rightarrow> dirlock_state \<Rightarrow> dirlock_state" where
  "RUnlock l s = s\<lparr>mutexes := (mutexes s)(l := (mutexes s l)\<lparr>readers := readers (mutexes s l) - 1\<rparr>)\<rparr>"

definition Lock :: "rwmutex_ptr \<Rightarrow> dirlock_state \<Rightarrow> dirlock_state" where
  "Lock l s = s\<lparr>mutexes := (mutexes s)(l := (mutexes s l)\<lparr>writer := True\<rparr>)\<rparr>"

definition WUnlock :: "rwmutex_ptr \<Rightarrow> dirlock_state \<Rightarrow> dirlock_state" where
  "WUnlock l s = s\<lparr>mutexes := (mutexes s)(l := (mutexes s l)\<lparr>writer := False\<rparr>)\<rparr>"

definition keepDirectoryLock :: "string \<Rightarrow> dirlock_state \<Rightarrow> unlocker \<times> dirlock_state" where
  "keepDirectoryLock dir s =
     (case getDirLock dir s of (l, s1) \<Rightarrow> (keepLock l, RLock l s1))"

definition deleteDirectoryLock :: "string \<Rightarrow> dirlock_state \<Rightarrow> unlocker \<times> dirlock_state" where
  "deleteDirectoryLock dir s =
     (case getDirLock dir s of (l, s1) \<Rightarrow> (deleteLock l, Lock l s1))"

fun Unlock :: "unlocker \<Rightarrow> dirlock_state \<Rightarrow> dirlock_state" where
  "Unlock (keepLock l) s = unlockDirLock (RUnlock l s)"
| "Unlock (deleteLock l) s = unlockDirLock (WUnlock l s)"

text \<open>
  Every pointer stored in the registry came from \<^verbatim>\<open>new\<close>: it is below the allocation
  counter. The initial state (empty map) satisfies this and every operation keeps it.
\<close>

definition registry_ok :: "dirlock_state \<Rightarrow> bool" where
  "registry_ok s = (\<forall>d l. dirLocks s d = Some l \<longrightarrow> l < allocated s)"

definition registry_init :: dirlock_state where
  "registry_init = \<lparr>locksOut = 0, dirLocks = Map.empty, allocated = 0,
                     mutexes = (\<lambda>_. \<lparr>readers = 0, writer = False\<rparr>)\<rparr>"


section \<open>File nodes of the mutable filesystem (pkg/fs/mut.go)\<close>

type_synonym blobref = string
type_synonym addr = nat

text \<open>
  A \<^verbatim>\<open>time.Time\<close> is an instant counted in nanoseconds from Go's zero time, so
  \<^verbatim>\<open>IsZero\<close> is equality with 0.
\<close>

type_synonym time = int

definition IsZero :: "time \<Rightarrow> bool" where
  "IsZero t = (t = 0)"

record mutNode =
  permanode :: blobref
  parent :: "addr option"
  name :: string

record mutFile = mutNode +
  symLink :: bool
  target :: string
  content :: "blobref option"
  size' :: "64 word"
  mtime :: time
  atime :: time

record Attr =
  Inode :: "64 word"
  Mode :: "32 word"
  Uid :: "32 word"
  Gid :: "32 word"
  Size :: "64 word"
  Blocks :: "64 word"
  Mtime :: time
  Atime :: time
  Ctime :: time
  Crtime :: time

text \<open>
  What \<^verbatim>\<open>Attr\<close> reads from outside the node: the inode projection
  \<^verbatim>\<open>(*blobref.BlobRef).AsUint64\<close> (package blobref is not among the sources),
  \<^verbatim>\<open>os.Getuid()\<close>, \<^verbatim>\<open>os.Getgid()\<close> and the package variable \<^verbatim>\<open>serverStart\<close>.
\<close>

record process =
  AsUint64 :: "blobref \<Rightarrow> 64 word"
  Getuid :: "32 word"
  Getgid :: "32 word"
  serverStart :: time

text \<open>
  \<^verbatim>\<open>os.ModeSymlink\<close> is bit 27 of an \<^verbatim>\<open>os.FileMode\<close> (a \<^verbatim>\<open>uint32\<close>). The octal
  literal \<^verbatim>\<open>0600\<close> is 6 * 64 = 384.
\<close>

definition ModeSymlink :: "32 word" where
  "ModeSymlink = push_bit 27 1"

definition modTime :: "process \<Rightarrow> mutFile \<Rightarrow> time" where
  "modTime p n = (if \<not> IsZero (mtime n) then mtime n else serverStart p)"

definition accessTime :: "process \<Rightarrow> mutFile \<Rightarrow> time" where
  "accessTime p n = (if \<not> IsZero (atime n) then atime n else modTime p n)"

text \<open>
  \<^verbatim>\<open>size > 0\<close> compares \<^verbatim>\<open>int64\<close>s (signed); \<^verbatim>\<open>uint64(size)\<close> keeps the bits, and the
  division is unsigned.
\<close>

definition mutFile_Attr :: "process \<Rightarrow> mutFile \<Rightarrow> Attr" where
  "mutFile_Attr p n =
     (let mode0 = (384 :: 32 word);
          sz = size' n;
          blocks = (if 0 <s sz then sz div 512 + 1 else 0);
          inode = AsUint64 p (permanode n);
          mode = (if symLink n then mode0 OR ModeSymlink else mode0)
      in \<lparr>Inode = inode, Mode = mode, Uid = Getuid p, Gid = Getgid p,
          Size = sz, Blocks = blocks,
          Mtime = modTime p n, Atime = accessTime p n,
          Ctime = serverStart p, Crtime = serverStart p\<rparr>)"

definition setSizeAtLeast :: "64 word \<Rightarrow> mutFile \<Rightarrow> mutFile" where
  "setSizeAtLeast sz n = (if size' n <s sz then n\<lparr>size' := sz\<rparr> else n)"


section \<open>Directory nodes, the node heap and the outside world (pkg/fs/mut.go)\<close>

text \<open>
  A \<^verbatim>\<open>map[string]mutFileOrDir\<close> field is \<open>None\<close> while it is the nil map (reads see no
  key, \<^verbatim>\<open>delete\<close> does nothing, an assignment panics) and \<open>Some m\<close> once made.
\<close>

record mutDir = mutNode +
  lastPop :: time
  children :: "(string \<rightharpoonup> addr) option"

datatype mutFileOrDir = File mutFile | Dir mutDir

text \<open>How often to refresh directory nodes by reading from the blobstore: 30 seconds.\<close>

definition populateInterval :: int where
  "populateInterval = 30 * 1000000000"

datatype 'a outcome = Returns 'a | Panics string

datatype fuse_Error = EIO | ENOENT

type_synonym error = string

text \<open>
  Modelled from the spec: the claims of package schema, which is not among the sources:
  "Claim kinds consumed by the core: set-attribute(permanode, key, value),
  del-attribute(permanode, key), each optionally carrying a claim date".
\<close>

datatype claimType = SetAttributeClaim | DelAttributeClaim

record claim =
  claimType :: claimType
  claimPermanode :: blobref
  claimAttribute :: string
  claimValue :: string
  claimDate :: "time option"

definition NewSetAttributeClaim :: "blobref \<Rightarrow> string \<Rightarrow> string \<Rightarrow> claim" where
  "NewSetAttributeClaim pn attr v =
     \<lparr>claimType = SetAttributeClaim, claimPermanode = pn, claimAttribute = attr,
      claimValue = v, claimDate = None\<rparr>"

definition NewDelAttributeClaim :: "blobref \<Rightarrow> string \<Rightarrow> claim" where
  "NewDelAttributeClaim pn attr =
     \<lparr>claimType = DelAttributeClaim, claimPermanode = pn, claimAttribute = attr,
      claimValue = [], claimDate = None\<rparr>"

definition SetClaimDate :: "time \<Rightarrow> claim \<Rightarrow> claim" where
  "SetClaimDate t c = c\<lparr>claimDate := Some t\<rparr>"

text \<open>
  Modelled from the spec: the describe response of package search, which is not among
  the sources: "a meta map from blob reference string to a record containing
  Permanode.Attr (a mapping from attribute name to ordered list of string values),
  CamliType, and for file types a File.Size". The attribute map is the list of its
  entries in the order the \<^verbatim>\<open>range\<close> loop visits them; \<open>Get\<close> is \<^verbatim>\<open>url.Values.Get\<close>, the
  first value of a key or the empty string. A blob reference is its string form, so
  \<^verbatim>\<open>blobref.Parse\<close> and \<^verbatim>\<open>String\<close> do not change it.
\<close>

record DescribedBlob =
  Permanode_Attr :: "(string \<times> string list) list"
  CamliType :: string
  File_Size :: "64 word"

record DescribeResponse =
  Meta :: "string \<rightharpoonup> DescribedBlob"

record DescribeRequest =
  BlobRef :: blobref
  Depth :: int

definition Get :: "(string \<times> string list) list \<Rightarrow> string \<Rightarrow> string" where
  "Get vs key = (case map_of vs key of None \<Rightarrow> [] | Some [] \<Rightarrow> [] | Some (v # _) \<Rightarrow> v)"

definition Parse :: "string \<Rightarrow> blobref" where
  "Parse ref = ref"

definition HasPrefix :: "string \<Rightarrow> string \<Rightarrow> bool" where
  "HasPrefix s prefix = (length prefix \<le> length s \<and> take (length prefix) s = prefix)"

text \<open>
  The state the file's functions act on: the nodes by address (\<open>nextAddr\<close> is the
  address the next composite literal \<^verbatim>\<open>&mutFile{...}\<close> or \<^verbatim>\<open>&mutDir{...}\<close> gets), the
  requests made to the client, in order (\<open>describes\<close> for \<^verbatim>\<open>Describe\<close>, \<open>uploads\<close> for the
  claims handed to \<^verbatim>\<open>UploadAndSignBlob\<close>, whether the upload then succeeded or not), and
  the temporary files: the paths present in the temp directory and the names of the
  files held open. What the outside world answers (the clock, the describe response,
  the result of an upload) is an argument of the function that asks.
\<close>

record fs_state =
  heap :: "addr \<rightharpoonup> mutFileOrDir"
  nextAddr :: addr
  describes :: "DescribeRequest list"
  uploads :: "claim list"
  tempdir :: "string list"
  openFiles :: "string list"

definition nil_deref :: string where
  "nil_deref = ''invalid memory address or nil pointer dereference''"

definition new :: "mutFileOrDir \<Rightarrow> fs_state \<Rightarrow> addr \<times> fs_state" where
  "new obj s = (nextAddr s, s\<lparr>heap := (heap s)(nextAddr s \<mapsto> obj), nextAddr := Suc (nextAddr s)\<rparr>)"

definition lookup_child :: "mutDir \<Rightarrow> string \<Rightarrow> addr option" where
  "lookup_child n nm = (case children n of None \<Rightarrow> None | Some m \<Rightarrow> m nm)"

text \<open>The assignment \<^verbatim>\<open>n.children[name] = child\<close> for the directory at address \<open>a\<close>.\<close>

definition set_child :: "addr \<Rightarrow> string \<Rightarrow> addr \<Rightarrow> fs_state \<Rightarrow> unit outcome \<times> fs_state" where
  "set_child a nm c s =
     (case heap s a of
        Some (Dir n) \<Rightarrow>
          (case children n of
             None \<Rightarrow> (Panics ''assignment to entry in nil map'', s)
           | Some m \<Rightarrow>
               (Returns (), s\<lparr>heap := (heap s)(a \<mapsto> Dir (n\<lparr>children := Some (m(nm \<mapsto> c))\<rparr>))\<rparr>))
      | _ \<Rightarrow> (Panics nil_deref, s))"

definition newMutFile :: "blobref \<Rightarrow> addr \<Rightarrow> string \<Rightarrow> mutFile" where
  "newMutFile pn a nm =
     \<lparr>permanode = pn, parent = Some a, name = nm, symLink = False, target = [],
      content = None, size' = 0, mtime = 0, atime = 0\<rparr>"

definition newMutDir :: "blobref \<Rightarrow> addr \<Rightarrow> string \<Rightarrow> mutDir" where
  "newMutDir pn a nm =
     \<lparr>permanode = pn, parent = Some a, name = nm, lastPop = 0, children = None\<rparr>"

text \<open>
  The constant \<^verbatim>\<open>p\<close> of \<^verbatim>\<open>populate\<close>, which the other functions write out as the
  literal \<^verbatim>\<open>"camliPath:"\<close>, and one iteration of the loop of \<^verbatim>\<open>populate\<close>, for the
  attribute \<open>k\<close> with values \<open>v\<close>.
\<close>

definition camliPath :: string where
  "camliPath = ''camliPath:''"

definition populate_attr ::
  "DescribeResponse \<Rightarrow> addr \<Rightarrow> string \<times> string list \<Rightarrow> fs_state \<Rightarrow> unit outcome \<times> fs_state" where
  "populate_attr res a kv s =
     (let k = fst kv; v = snd kv; p = camliPath in
      if \<not> HasPrefix k p \<or> length v < 1 then (Returns (), s)
      else
        let nm = drop (length p) k; childRef = v ! 0 in
        case Meta res childRef of
          None \<Rightarrow> (Returns (), s)
        | Some child \<Rightarrow>
            let tgt = Get (Permanode_Attr child) ''camliSymlinkTarget'' in
            if tgt \<noteq> [] then
              (case new (File ((newMutFile (Parse childRef) a nm)\<lparr>symLink := True, target := tgt\<rparr>)) s of
                 (c, s1) \<Rightarrow> set_child a nm c s1)
            else
              let contentRef = Get (Permanode_Attr child) ''camliContent'' in
              if contentRef \<noteq> [] then
                (case Meta res contentRef of
                   None \<Rightarrow> (Returns (), s)
                 | Some cont \<Rightarrow>
                     if CamliType cont \<noteq> ''file'' then (Returns (), s)
                     else
                       (case new (File ((newMutFile (Parse childRef) a nm)
                                    \<lparr>content := Some (Parse contentRef), size' := File_Size cont\<rparr>)) s of
                          (c, s1) \<Rightarrow> set_child a nm c s1))
              else
                (case new (Dir (newMutDir (Parse childRef) a nm)) s of
                   (c, s1) \<Rightarrow> set_child a nm c s1))"

fun populate_attrs ::
  "DescribeResponse \<Rightarrow> addr \<Rightarrow> (string \<times> string list) list \<Rightarrow> fs_state \<Rightarrow> unit outcome \<times> fs_state" where
  "populate_attrs res a [] s = (Returns (), s)"
| "populate_attrs res a (kv # kvs) s =
     (case populate_attr res a kv s of
        (Panics msg, s1) \<Rightarrow> (Panics msg, s1)
      | (Returns _, s1) \<Rightarrow> populate_attrs res a kvs s1)"

text \<open>
  \<^verbatim>\<open>populate\<close> on the directory at address \<open>a\<close>; \<open>now\<close> is what \<^verbatim>\<open>time.Now()\<close> returns and
  \<open>descr\<close> what \<^verbatim>\<open>Describe\<close> returns if it is called.
\<close>

definition populate ::
  "addr \<Rightarrow> time \<Rightarrow> error + DescribeResponse \<Rightarrow> fs_state \<Rightarrow> error option outcome \<times> fs_state" where
  "populate a now descr s =
     (case heap s a of
        Some (Dir n) \<Rightarrow>
          if now < lastPop n + populateInterval then (Returns None, s)
          else
            let n1 = n\<lparr>lastPop := now\<rparr>;
                s1 = s\<lparr>heap := (heap s)(a \<mapsto> Dir n1),
                       describes := describes s @ [\<lparr>BlobRef = permanode n, Depth = 3\<rparr>]\<rparr>
            in
            (case descr of
               Inl err \<Rightarrow> (Returns None, s1)
             | Inr res \<Rightarrow>
                 (case Meta res (permanode n) of
                    None \<Rightarrow> (Returns (Some ''dir blobref not described''), s1)
                  | Some db \<Rightarrow>
                      let s2 = (if children n1 = None
                                then s1\<lparr>heap := (heap s1)(a \<mapsto> Dir (n1\<lparr>children := Some Map.empty\<rparr>))\<rparr>
                                else s1)
                      in
                      (case populate_attrs res a (Permanode_Attr db) s2 of
                         (Panics msg, s3) \<Rightarrow> (Panics msg, s3)
                       | (Returns _, s3) \<Rightarrow> (Returns None, s3))))
      | _ \<Rightarrow> (Panics nil_deref, s))"

text \<open>
  \<^verbatim>\<open>Remove\<close> of the name \<open>nm\<close> in the directory at \<open>a\<close>; \<open>up\<close> is the error that
  \<^verbatim>\<open>UploadAndSignBlob\<close> returns (\<open>None\<close> for nil).
\<close>

definition Remove ::
  "addr \<Rightarrow> string \<Rightarrow> error option \<Rightarrow> fs_state \<Rightarrow> fuse_Error option outcome \<times> fs_state" where
  "Remove a nm up s =
     (case heap s a of
        Some (Dir n) \<Rightarrow>
          let cl = NewDelAttributeClaim (permanode n) (camliPath @ nm);
              s1 = s\<lparr>uploads := uploads s @ [cl]\<rparr>
          in
          (case up of
             Some err \<Rightarrow> (Returns (Some EIO), s1)
           | None \<Rightarrow>
               (case children n of
                  None \<Rightarrow> (Returns None, s1)
                | Some m \<Rightarrow>
                    (Returns None,
                     s1\<lparr>heap := (heap s1)(a \<mapsto> Dir (n\<lparr>children := Some (m(nm := None))\<rparr>))\<rparr>)))
      | _ \<Rightarrow> (Panics nil_deref, s))"

definition permanodeString :: "fs_state \<Rightarrow> addr \<Rightarrow> string option" where
  "permanodeString s t =
     (case heap s t of
        Some (File f) \<Rightarrow> Some (permanode f)
      | Some (Dir d) \<Rightarrow> Some (permanode d)
      | None \<Rightarrow> None)"

text \<open>
  What the outside world answers during one \<^verbatim>\<open>Rename\<close>, in the order it is asked: the
  clock and the describe response for the populate of the source, the same for the
  destination, the clock for the claim date, and the results of the two uploads.
\<close>

record rename_world =
  now_src :: time
  describe_src :: "error + DescribeResponse"
  now_dst :: time
  describe_dst :: "error + DescribeResponse"
  now_claim :: time
  upload_link :: "error option"
  upload_unlink :: "error option"

text \<open>
  The in-memory move at the end of \<^verbatim>\<open>Rename\<close>, after both uploads: the race check and
  the \<^verbatim>\<open>delete\<close> on the source, then the assignment in the destination (read again from
  the heap: source and destination may be the same node).
\<close>

definition rename_move ::
  "addr \<Rightarrow> string \<Rightarrow> addr \<Rightarrow> string \<Rightarrow> addr \<Rightarrow> fs_state \<Rightarrow> fuse_Error option outcome \<times> fs_state" where
  "rename_move a oldName a2 newName tgt s =
     (case heap s a of
        Some (Dir n) \<Rightarrow>
          if lookup_child n oldName \<noteq> Some tgt then (Panics ''Race.'', s)
          else
            let s1 = (case children n of
                        None \<Rightarrow> s
                      | Some m \<Rightarrow>
                          s\<lparr>heap := (heap s)(a \<mapsto> Dir (n\<lparr>children := Some (m(oldName := None))\<rparr>))\<rparr>)
            in
            (case set_child a2 newName tgt s1 of
               (Panics msg, s2) \<Rightarrow> (Panics msg, s2)
             | (Returns _, s2) \<Rightarrow> (Returns None, s2))
      | _ \<Rightarrow> (Panics nil_deref, s))"

text \<open>
  \<^verbatim>\<open>Rename\<close> on the directory at \<open>a\<close>. The node \<open>newDir\<close> passes the type assertion
  \<^verbatim>\<open>newDir.(*mutDir)\<close> when the heap holds a directory at that address; a file node, or a
  node that is none of this file's (no entry in the heap), does not.
\<close>

definition Rename ::
  "addr \<Rightarrow> string \<Rightarrow> string \<Rightarrow> addr \<Rightarrow> rename_world \<Rightarrow> fs_state \<Rightarrow> fuse_Error option outcome \<times> fs_state" where
  "Rename a oldName newName newDir w s =
     (case heap s newDir of
        Some (Dir _) \<Rightarrow>
          (case populate a (now_src w) (describe_src w) s of
             (Panics msg, s1) \<Rightarrow> (Panics msg, s1)
           | (Returns (Some err), s1) \<Rightarrow> (Returns (Some EIO), s1)
           | (Returns None, s1) \<Rightarrow>
               (case populate newDir (now_dst w) (describe_dst w) s1 of
                  (Panics msg, s2) \<Rightarrow> (Panics msg, s2)
                | (Returns (Some err), s2) \<Rightarrow> (Returns (Some EIO), s2)
                | (Returns None, s2) \<Rightarrow>
                    (case (heap s2 a, heap s2 newDir) of
                       (Some (Dir n), Some (Dir n2)) \<Rightarrow>
                         (case lookup_child n oldName of
                            None \<Rightarrow> (Returns (Some ENOENT), s2)
                          | Some tgt \<Rightarrow>
                              (case permanodeString s2 tgt of
                                 None \<Rightarrow> (Panics nil_deref, s2)
                               | Some tgtRef \<Rightarrow>
                                   let now = now_claim w;
                                       cl = SetClaimDate now
                                              (NewSetAttributeClaim (permanode n2) (camliPath @ newName) tgtRef);
                                       s3 = s2\<lparr>uploads := uploads s2 @ [cl]\<rparr>
                                   in
                                   (case upload_link w of
                                      Some err \<Rightarrow> (Returns (Some EIO), s3)
                                    | None \<Rightarrow>
                                        let delClaim = SetClaimDate now
                                              (NewDelAttributeClaim (permanode n) (camliPath @ oldName));
                                            s4 = s3\<lparr>uploads := uploads s3 @ [delClaim]\<rparr>
                                        in
                                        (case upload_unlink w of
                                           Some err \<Rightarrow> (Returns (Some EIO), s4)
                                         | None \<Rightarrow> rename_move a oldName newDir newName tgt s4))))
                     | _ \<Rightarrow> (Panics nil_deref, s2))))
      | _ \<Rightarrow> (Returns (Some EIO), s))"


section \<open>Write handles (pkg/fs/mut.go)\<close>

text \<open>
  \<^verbatim>\<open>setContent\<close> on the file node at address \<open>a\<close>: the two assignments, then the claim;
  \<open>up\<close> is the error that \<^verbatim>\<open>UploadAndSignBlob\<close> returns, which \<^verbatim>\<open>setContent\<close> returns.
\<close>

definition setContent ::
  "addr \<Rightarrow> blobref \<Rightarrow> 64 word \<Rightarrow> error option \<Rightarrow> fs_state \<Rightarrow> error option outcome \<times> fs_state" where
  "setContent a br sz up s =
     (case heap s a of
        Some (File n) \<Rightarrow>
          let n1 = n\<lparr>content := Some br, size' := sz\<rparr>;
              cl = NewSetAttributeClaim (permanode n) ''camliContent'' br
          in (Returns up, s\<lparr>heap := (heap s)(a \<mapsto> File n1), uploads := uploads s @ [cl]\<rparr>)
      | _ \<Rightarrow> (Panics nil_deref, s))"

text \<open>
  The \<^verbatim>\<open>*os.File\<close> of a handle: its name and the bytes written to it. The handle is the
  only owner of the file, so the record is held by value in the handle; that the file
  is open and that its path exists are facts of the state (\<open>openFiles\<close>, \<open>tempdir\<close>).
\<close>

record os_File =
  Name :: string
  contents :: "8 word list"

record mutFileHandle =
  f :: addr
  tmp :: "os_File option"

definition Close :: "os_File \<Rightarrow> fs_state \<Rightarrow> fs_state" where
  "Close fl s = s\<lparr>openFiles := removeAll (Name fl) (openFiles s)\<rparr>"

definition os_Remove :: "string \<Rightarrow> fs_state \<Rightarrow> fs_state" where
  "os_Remove path s = s\<lparr>tempdir := removeAll path (tempdir s)\<rparr>"

text \<open>
  \<^verbatim>\<open>newHandle\<close> on the file node at \<open>n\<close>. \<open>tempfile\<close> is what \<^verbatim>\<open>ioutil.TempFile\<close> returns: an
  error (and a nil file), or the name of the file it created and opened. \<open>body\<close> is
  \<open>None\<close> for a nil reader; otherwise it tells how \<^verbatim>\<open>io.Copy(tmp, body)\<close> goes: the bytes
  that reach the file and the error returned (\<open>None\<close> when the body was copied whole).
\<close>

definition newHandle ::
  "addr \<Rightarrow> error + string \<Rightarrow> (8 word list \<times> error option) option \<Rightarrow> fs_state
     \<Rightarrow> (fuse_Error + mutFileHandle) \<times> fs_state" where
  "newHandle n tempfile body s =
     (case tempfile of
        Inl err \<Rightarrow> (Inl EIO, s)
      | Inr nm \<Rightarrow>
          let s1 = s\<lparr>tempdir := nm # tempdir s, openFiles := nm # openFiles s\<rparr>;
              t = \<lparr>Name = nm, contents = []\<rparr>
          in
          (case body of
             None \<Rightarrow> (Inr \<lparr>f = n, tmp = Some t\<rparr>, s1)
           | Some (written, err) \<Rightarrow>
               let t1 = t\<lparr>contents := written\<rparr> in
               (case err of
                  Some e \<Rightarrow> (Inl EIO, os_Remove (Name t1) (Close t1 s1))
                | None \<Rightarrow> (Inr \<lparr>f = n, tmp = Some t1\<rparr>, s1))))"

text \<open>
  What the outside world answers during one \<^verbatim>\<open>Release\<close>: the error of
  \<^verbatim>\<open>h.tmp.Seek(0, 0)\<close>, the result of \<^verbatim>\<open>schema.WriteFileFromReader\<close> (an error or the
  reference of the file blob; on success the counting reader has been read to its
  end, so the count is the length of the file), and the error of the upload of the
  claim inside \<^verbatim>\<open>setContent\<close>.
\<close>

record release_world =
  seek :: "error option"
  writeFile :: "error + blobref"
  upload_content :: "error option"

definition Release ::
  "mutFileHandle \<Rightarrow> release_world \<Rightarrow> fs_state
     \<Rightarrow> (fuse_Error option \<times> mutFileHandle) outcome \<times> fs_state" where
  "Release h w s =
     (case tmp h of
        None \<Rightarrow> (Returns (Some EIO, h), s)
      | Some t \<Rightarrow>
          (case seek w of
             Some err \<Rightarrow> (Returns (Some EIO, h), s)
           | None \<Rightarrow>
               (case heap s (f h) of
                  Some (File _) \<Rightarrow>
                    (case writeFile w of
                       Inl err \<Rightarrow> (Returns (Some EIO, h), s)
                     | Inr br \<Rightarrow>
                         let n = (word_of_nat (length (contents t)) :: 64 word) in
                         (case setContent (f h) br n (upload_content w) s of
                            (Panics msg, s1) \<Rightarrow> (Panics msg, s1)
                          | (Returns _, s1) \<Rightarrow>
                              let s2 = os_Remove (Name t) (Close t s1) in
                              (Returns (None, h\<lparr>tmp := None\<rparr>), s2)))
                | _ \<Rightarrow> (Panics nil_deref, s))))"

text \<open>A handle is released when its \<^verbatim>\<open>tmp\<close> is nil; a scratch file is leaked while it is
  still open or its path still exists.\<close>

definition released :: "mutFileHandle \<Rightarrow> bool" where
  "released h = (tmp h = None)"

definition scratch_gone :: "string \<Rightarrow> fs_state \<Rightarrow> bool" where
  "scratch_gone nm s = (nm \<notin> set (openFiles s) \<and> nm \<notin> set (tempdir s))"


section \<open>Notions used to state the properties\<close>

definition dir_at :: "fs_state \<Rightarrow> addr \<Rightarrow> mutDir option" where
  "dir_at s a = (case heap s a of Some (Dir n) \<Rightarrow> Some n | _ \<Rightarrow> None)"

definition file_at :: "fs_state \<Rightarrow> addr \<Rightarrow> mutFile option" where
  "file_at s a = (case heap s a of Some (File n) \<Rightarrow> Some n | _ \<Rightarrow> None)"

definition child_at :: "fs_state \<Rightarrow> addr \<Rightarrow> string \<Rightarrow> addr option" where
  "child_at s a nm = (case dir_at s a of Some n \<Rightarrow> lookup_child n nm | None \<Rightarrow> None)"

text \<open>
  The node that one iteration of the loop of \<^verbatim>\<open>populate\<close> constructs and binds for the
  attribute \<open>kv\<close>, if it binds one: \<open>populate_attr\<close> with the state left out.
\<close>

definition described_child ::
  "DescribeResponse \<Rightarrow> addr \<Rightarrow> string \<times> string list \<Rightarrow> mutFileOrDir option" where
  "described_child res a kv =
     (let k = fst kv; v = snd kv; p = camliPath in
      if \<not> HasPrefix k p \<or> length v < 1 then None
      else
        let nm = drop (length p) k; childRef = v ! 0 in
        case Meta res childRef of
          None \<Rightarrow> None
        | Some child \<Rightarrow>
            let tgt = Get (Permanode_Attr child) ''camliSymlinkTarget'' in
            if tgt \<noteq> [] then
              Some (File ((newMutFile (Parse childRef) a nm)\<lparr>symLink := True, target := tgt\<rparr>))
            else
              let contentRef = Get (Permanode_Attr child) ''camliContent'' in
              if contentRef \<noteq> [] then
                (case Meta res contentRef of
                   None \<Rightarrow> None
                 | Some cont \<Rightarrow>
                     if CamliType cont \<noteq> ''file'' then None
                     else Some (File ((newMutFile (Parse childRef) a nm)
                                    \<lparr>content := Some (Parse contentRef), size' := File_Size cont\<rparr>)))
              else Some (Dir (newMutDir (Parse childRef) a nm)))"




definition is_mutDir :: "fs_state \<Rightarrow> addr \<Rightarrow> bool" where
  "is_mutDir s a = (dir_at s a \<noteq> None)"

text \<open>The state in which \<^verbatim>\<open>Rename\<close> looks the old name up: after both populates.\<close>

definition rename_populated :: "addr \<Rightarrow> addr \<Rightarrow> rename_world \<Rightarrow> fs_state \<Rightarrow> fs_state" where
  "rename_populated a newDir w s =
     snd (populate newDir (now_dst w) (describe_dst w)
            (snd (populate a (now_src w) (describe_src w) s)))"

definition rename_populates_ok :: "addr \<Rightarrow> addr \<Rightarrow> rename_world \<Rightarrow> fs_state \<Rightarrow> bool" where
  "rename_populates_ok a newDir w s =
     (fst (populate a (now_src w) (describe_src w) s) = Returns None \<and>
      fst (populate newDir (now_dst w) (describe_dst w)
             (snd (populate a (now_src w) (describe_src w) s))) = Returns None)"


section \<open>A small mounted tree, used to run the functions\<close>

text \<open>
  A root directory at address 0, populated at time 0, with two children made on
  this client: the file \<open>a\<close> and the file \<open>b\<close>. The file \<open>a\<close> is open for writing
  through the handle \<open>ex_handle\<close> with the scratch file \<open>camli-1\<close>: 5 bytes were
  written through the handle (so the size of the node is 5) and the handle was then
  truncated to 3 bytes. The describe response \<open>ex_describe\<close> lists \<open>a\<close> only, as a
  file of 3 bytes.
\<close>

definition ex_a :: mutFile where
  "ex_a = (newMutFile ''sha1-a'' 0 ''a'')\<lparr>size' := 5\<rparr>"

definition ex_b :: mutFile where
  "ex_b = newMutFile ''sha1-b'' 0 ''b''"

definition ex_root :: mutDir where
  "ex_root = \<lparr>permanode = ''sha1-root'', parent = None, name = [], lastPop = 0,
              children = Some [''a'' \<mapsto> 1, ''b'' \<mapsto> 2]\<rparr>"

definition ex_state :: fs_state where
  "ex_state = \<lparr>heap = [0 \<mapsto> Dir ex_root, 1 \<mapsto> File ex_a, 2 \<mapsto> File ex_b], nextAddr = 3,
               describes = [], uploads = [],
               tempdir = [''camli-1''], openFiles = [''camli-1'']\<rparr>"

definition ex_handle :: mutFileHandle where
  "ex_handle = \<lparr>f = 1, tmp = Some \<lparr>Name = ''camli-1'', contents = [104, 101, 108]\<rparr>\<rparr>"

definition ex_describe :: DescribeResponse where
  "ex_describe = \<lparr>Meta =
     [''sha1-root'' \<mapsto> \<lparr>Permanode_Attr = [(''camliPath:a'', [''sha1-a''])],
                         CamliType = ''permanode'', File_Size = 0\<rparr>,
      ''sha1-a'' \<mapsto> \<lparr>Permanode_Attr = [(''camliContent'', [''sha1-c''])],
                      CamliType = ''permanode'', File_Size = 0\<rparr>,
      ''sha1-c'' \<mapsto> \<lparr>Permanode_Attr = [], CamliType = ''file'', File_Size = 3\<rparr>]\<rparr>"

text \<open>Forty seconds after the zero time: the populate interval has passed.\<close>

definition ex_now :: time where
  "ex_now = 40 * 1000000000"


definition ex_rename_world :: rename_world where
  "ex_rename_world = \<lparr>now_src = ex_now, describe_src = Inl ''offline'',
                      now_dst = ex_now + 1, describe_dst = Inl ''offline'',
                      now_claim = ex_now + 2,
                      upload_link = None, upload_unlink = None\<rparr>"


text \<open>The registry after one \<^verbatim>\<open>keepDirectoryLock\<close> from its initial state.\<close>

definition ex_locked :: "unlocker \<times> dirlock_state" where
  "ex_locked = keepDirectoryLock ''/blobs/sha1'' registry_init"


section \<open>Properties of the file node\<close>

lemma sint_eq_uint_pos:
  assumes "0 <s (x :: 64 word)"
  shows "sint x = uint x"
proof -
  from assms have p: "0 \<le> sint x" by (simp add: word_sless_alt)
  have "sint x < 2 ^ (LENGTH(64) - 1)" by (rule sint_lt)
  then have q: "sint x < 2 ^ 64" by simp
  have "uint x = take_bit 64 (sint x)" using uint_sint [of x] by simp
  also have "\<dots> = sint x" using p q by (simp add: take_bit_int_eq_self)
  finally show ?thesis by simp
qed

lemma unat_blocks: "unat ((x :: 64 word) div 512 + 1) = unat x div 512 + 1"
proof -
  have a: "unat (x div 512) = unat x div 512" by (simp add: unat_div)
  have "unat x < 2 ^ 64" using unsigned_less [of x] by simp
  then have b: "unat x div 512 + 1 < 2 ^ 64" by simp
  have "unat (x div 512 + 1) = (unat (x div 512) + 1) mod 2 ^ 64"
    by (simp add: unat_word_ariths)
  then show ?thesis using a b by simp
qed

lemma Attr_Blocks:
  "unat (Blocks (mutFile_Attr p n)) =
     (if 0 < sint (size' n) then nat (sint (size' n) div 512 + 1) else 0)"
proof (cases "0 <s size' n")
  case True
  then have s: "sint (size' n) = uint (size' n)" by (rule sint_eq_uint_pos)
  have pos: "0 < sint (size' n)" using True by (simp add: word_sless_alt)
  have "0 \<le> uint (size' n) div 512"
    using uint_ge_0 [of "size' n"] by (simp only: pos_imp_zdiv_nonneg_iff)
  then have "nat (uint (size' n) div 512 + 1) = nat (uint (size' n) div 512) + 1"
    by (simp add: nat_add_distrib)
  also have "\<dots> = unat (size' n) div 512 + 1"
    by (simp add: nat_div_distrib)
  finally show ?thesis using True pos s by (simp add: mutFile_Attr_def Let_def unat_blocks)
next
  case False
  then show ?thesis by (simp add: mutFile_Attr_def Let_def word_sless_alt)
qed

lemma setSizeAtLeast_max:
  "sint (size' (setSizeAtLeast sz n)) = max (sint (size' n)) (sint sz)"
  by (simp add: setSizeAtLeast_def word_sless_alt max_def)

lemma setSizeAtLeast_sequence:
  "sint (size' n) \<le> sint (size' (foldl (\<lambda>m k. setSizeAtLeast k m) n ks))"
proof (induction ks arbitrary: n)
  case Nil
  show ?case by simp
next
  case (Cons k ks)
  have "sint (size' n) \<le> sint (size' (setSizeAtLeast k n))"
    by (simp add: setSizeAtLeast_max)
  also have "\<dots> \<le> sint (size' (foldl (\<lambda>m k. setSizeAtLeast k m) (setSizeAtLeast k n) ks))"
    by (rule Cons.IH)
  finally show ?case by simp
qed

text \<open>
  C6. \<^verbatim>\<open>setSizeAtLeast(n)\<close> sets the size of the file node to the maximum of its size
  and \<open>n\<close> (both read as \<^verbatim>\<open>int64\<close>) and changes no other field; so the size never
  decreases over any sequence of \<^verbatim>\<open>setSizeAtLeast\<close> calls, and calling it twice with the
  same argument is the same as calling it once.
\<close>

theorem setSizeAtLeast_monotonic_maximum:
  "sint (size' (setSizeAtLeast sz n)) = max (sint (size' n)) (sint sz) \<and>
   setSizeAtLeast sz n = n\<lparr>size' := size' (setSizeAtLeast sz n)\<rparr> \<and>
   sint (size' n) \<le> sint (size' (foldl (\<lambda>m k. setSizeAtLeast k m) n ks)) \<and>
   setSizeAtLeast sz (setSizeAtLeast sz n) = setSizeAtLeast sz n"
proof -
  have "setSizeAtLeast sz n = n\<lparr>size' := size' (setSizeAtLeast sz n)\<rparr>"
    by (simp add: setSizeAtLeast_def)
  moreover have "setSizeAtLeast sz (setSizeAtLeast sz n) = setSizeAtLeast sz n"
    by (simp add: setSizeAtLeast_def)
  ultimately show ?thesis
    using setSizeAtLeast_max [of sz n] setSizeAtLeast_sequence [of n ks] by simp
qed

text \<open>
  C7. \<^verbatim>\<open>Attr\<close> of a file node reports a block count of size/512 + 1 (integer division)
  when the size is positive and 0 when it is not, the size field as \<^verbatim>\<open>Size\<close>, the
  64-bit projection of the permanode as \<^verbatim>\<open>Inode\<close>, and the mode 0600 (384), with the
  symlink bit (bit 27) set as well when the node is a symlink.
\<close>

theorem mutFile_Attr_reports:
  "unat (Blocks (mutFile_Attr p n)) =
     (if 0 < sint (size' n) then nat (sint (size' n) div 512 + 1) else 0) \<and>
   Size (mutFile_Attr p n) = size' n \<and>
   Inode (mutFile_Attr p n) = AsUint64 p (permanode n) \<and>
   Mode (mutFile_Attr p n) = (if symLink n then 384 OR push_bit 27 1 else 384)"
  using Attr_Blocks [of p n] by (simp add: mutFile_Attr_def Let_def ModeSymlink_def)




section \<open>Properties of the directory lock registry\<close>

lemma getDirLock_locksOut: "locksOut (snd (getDirLock dir s)) = locksOut s + 1"
  by (simp add: getDirLock_def Let_def split: option.splits)

lemma getDirLock_bound: "dirLocks (snd (getDirLock dir s)) dir = Some (fst (getDirLock dir s))"
  by (simp add: getDirLock_def Let_def split: option.splits)

lemma getDirLock_known:
  "dirLocks s dir = Some l \<Longrightarrow> getDirLock dir s = (l, s\<lparr>locksOut := locksOut s + 1\<rparr>)"
  by (simp add: getDirLock_def Let_def)

lemma getDirLock_first:
  "dirLocks s dir = None \<Longrightarrow>
   fst (getDirLock dir s) = allocated s \<and> allocated (snd (getDirLock dir s)) = Suc (allocated s)"
  by (simp add: getDirLock_def Let_def)

lemma getDirLock_ok: "registry_ok s \<Longrightarrow> registry_ok (snd (getDirLock dir s))"
  by (auto simp: registry_ok_def getDirLock_def Let_def less_Suc_eq split: option.splits)

lemma unlockDirLock_locksOut: "locksOut (unlockDirLock s) = locksOut s - 1"
  by (simp add: unlockDirLock_def Let_def)

lemma unlockDirLock_dirLocks:
  "dirLocks (unlockDirLock s) = (if locksOut s - 1 = 0 then Map.empty else dirLocks s)"
  by (simp add: unlockDirLock_def Let_def)

lemma unlockDirLock_allocated: "allocated (unlockDirLock s) = allocated s"
  by (simp add: unlockDirLock_def Let_def)

lemma unlockDirLock_ok: "registry_ok s \<Longrightarrow> registry_ok (unlockDirLock s)"
  by (simp add: registry_ok_def unlockDirLock_def Let_def)

lemma keep_get:
  "mu (fst (keepDirectoryLock dir s)) = fst (getDirLock dir s) \<and>
   locksOut (snd (keepDirectoryLock dir s)) = locksOut (snd (getDirLock dir s)) \<and>
   dirLocks (snd (keepDirectoryLock dir s)) = dirLocks (snd (getDirLock dir s)) \<and>
   allocated (snd (keepDirectoryLock dir s)) = allocated (snd (getDirLock dir s))"
  by (simp add: keepDirectoryLock_def RLock_def split: prod.splits)

lemma delete_get:
  "mu (fst (deleteDirectoryLock dir s)) = fst (getDirLock dir s) \<and>
   locksOut (snd (deleteDirectoryLock dir s)) = locksOut (snd (getDirLock dir s)) \<and>
   dirLocks (snd (deleteDirectoryLock dir s)) = dirLocks (snd (getDirLock dir s)) \<and>
   allocated (snd (deleteDirectoryLock dir s)) = allocated (snd (getDirLock dir s))"
  by (simp add: deleteDirectoryLock_def Lock_def split: prod.splits)

lemma Unlock_unlockDirLock:
  "locksOut (Unlock u s) = locksOut (unlockDirLock s) \<and>
   dirLocks (Unlock u s) = dirLocks (unlockDirLock s) \<and>
   allocated (Unlock u s) = allocated (unlockDirLock s)"
  by (cases u) (simp_all add: unlockDirLock_def RUnlock_def WUnlock_def Let_def)

lemma registry_ok_cong:
  "dirLocks s' = dirLocks s \<Longrightarrow> allocated s' = allocated s \<Longrightarrow> registry_ok s' = registry_ok s"
  by (simp add: registry_ok_def)

text \<open>
  C9. In a registry whose stored locks all came from \<^verbatim>\<open>new\<close>: every acquisition
  (\<^verbatim>\<open>keepDirectoryLock\<close> or \<^verbatim>\<open>deleteDirectoryLock\<close>) increments \<^verbatim>\<open>locksOut\<close> and returns the
  lock that the map then holds for the path, which is the lock the map held before, or
  a newly allocated one, different from every lock in the map, when the path had none;
  every \<^verbatim>\<open>Unlock\<close> decrements \<^verbatim>\<open>locksOut\<close> and, when the count reaches zero, resets the map
  to empty (and leaves it as it is otherwise), so that a later acquisition of any path
  returns a lock different from every lock the map held before the reset. All three
  operations keep the registry well formed.
\<close>

theorem dirlock_registry:
  assumes ok: "registry_ok s"
  shows "(locksOut (snd (keepDirectoryLock dir s)) = locksOut s + 1 \<and>
          locksOut (snd (deleteDirectoryLock dir s)) = locksOut s + 1) \<and>
         (dirLocks (snd (keepDirectoryLock dir s)) dir = Some (mu (fst (keepDirectoryLock dir s))) \<and>
          dirLocks (snd (deleteDirectoryLock dir s)) dir = Some (mu (fst (deleteDirectoryLock dir s)))) \<and>
         (\<forall>l. dirLocks s dir = Some l \<longrightarrow>
            mu (fst (keepDirectoryLock dir s)) = l \<and> mu (fst (deleteDirectoryLock dir s)) = l) \<and>
         (dirLocks s dir = None \<longrightarrow>
            mu (fst (keepDirectoryLock dir s)) = allocated s \<and>
            mu (fst (deleteDirectoryLock dir s)) = allocated s \<and>
            (\<forall>d l. dirLocks s d = Some l \<longrightarrow> l \<noteq> allocated s)) \<and>
         locksOut (Unlock u s) = locksOut s - 1 \<and>
         dirLocks (Unlock u s) = (if locksOut s - 1 = 0 then Map.empty else dirLocks s) \<and>
         (locksOut (Unlock u s) = 0 \<longrightarrow>
            (\<forall>d l. dirLocks s d = Some l \<longrightarrow>
               mu (fst (keepDirectoryLock dir (Unlock u s))) \<noteq> l \<and>
               mu (fst (deleteDirectoryLock dir (Unlock u s))) \<noteq> l)) \<and>
         registry_ok (snd (keepDirectoryLock dir s)) \<and>
         registry_ok (snd (deleteDirectoryLock dir s)) \<and>
         registry_ok (Unlock u s)"
proof -
  have c1: "locksOut (snd (keepDirectoryLock dir s)) = locksOut s + 1 \<and>
          locksOut (snd (deleteDirectoryLock dir s)) = locksOut s + 1"
    by (simp add: keep_get delete_get getDirLock_locksOut)
  have c2: "dirLocks (snd (keepDirectoryLock dir s)) dir = Some (mu (fst (keepDirectoryLock dir s))) \<and>
          dirLocks (snd (deleteDirectoryLock dir s)) dir = Some (mu (fst (deleteDirectoryLock dir s)))"
    by (simp add: keep_get delete_get getDirLock_bound)
  have c3: "\<forall>l. dirLocks s dir = Some l \<longrightarrow>
            mu (fst (keepDirectoryLock dir s)) = l \<and> mu (fst (deleteDirectoryLock dir s)) = l"
    by (simp add: keep_get delete_get getDirLock_known)
  have below: "\<forall>d l. dirLocks s d = Some l \<longrightarrow> l < allocated s"
    using ok by (simp add: registry_ok_def)
  then have fresh: "\<forall>d l. dirLocks s d = Some l \<longrightarrow> l \<noteq> allocated s" by auto
  have c4: "dirLocks s dir = None \<longrightarrow>
            mu (fst (keepDirectoryLock dir s)) = allocated s \<and>
            mu (fst (deleteDirectoryLock dir s)) = allocated s \<and>
            (\<forall>d l. dirLocks s d = Some l \<longrightarrow> l \<noteq> allocated s)"
    using fresh by (simp add: keep_get delete_get getDirLock_first)
  have c5: "locksOut (Unlock u s) = locksOut s - 1"
    by (simp add: Unlock_unlockDirLock unlockDirLock_locksOut)
  have c6: "dirLocks (Unlock u s) = (if locksOut s - 1 = 0 then Map.empty else dirLocks s)"
    by (simp add: Unlock_unlockDirLock unlockDirLock_dirLocks)
  have c7: "locksOut (Unlock u s) = 0 \<longrightarrow>
            (\<forall>d l. dirLocks s d = Some l \<longrightarrow>
               mu (fst (keepDirectoryLock dir (Unlock u s))) \<noteq> l \<and>
               mu (fst (deleteDirectoryLock dir (Unlock u s))) \<noteq> l)"
  proof
    assume z: "locksOut (Unlock u s) = 0"
    then have "dirLocks (Unlock u s) dir = None" using c5 c6 by simp
    then have "fst (getDirLock dir (Unlock u s)) = allocated (Unlock u s)"
      by (simp add: getDirLock_first)
    then have "fst (getDirLock dir (Unlock u s)) = allocated s"
      by (simp add: Unlock_unlockDirLock unlockDirLock_allocated)
    then show "\<forall>d l. dirLocks s d = Some l \<longrightarrow>
               mu (fst (keepDirectoryLock dir (Unlock u s))) \<noteq> l \<and>
               mu (fst (deleteDirectoryLock dir (Unlock u s))) \<noteq> l"
      using fresh by (auto simp: keep_get delete_get)
  qed
  have c8: "registry_ok (snd (keepDirectoryLock dir s))"
    using getDirLock_ok [OF ok, of dir] registry_ok_cong [of "snd (keepDirectoryLock dir s)" "snd (getDirLock dir s)"]
    by (simp add: keep_get)
  have c9: "registry_ok (snd (deleteDirectoryLock dir s))"
    using getDirLock_ok [OF ok, of dir] registry_ok_cong [of "snd (deleteDirectoryLock dir s)" "snd (getDirLock dir s)"]
    by (simp add: delete_get)
  have c10: "registry_ok (Unlock u s)"
    using unlockDirLock_ok [OF ok] registry_ok_cong [of "Unlock u s" "unlockDirLock s"]
    by (simp add: Unlock_unlockDirLock)
  show ?thesis using c1 c2 c3 c4 c5 c6 c7 c8 c9 c10 by blast
qed

lemma ex_locked_eq: "ex_locked = (keepLock 0, \<lparr>locksOut = 1, dirLocks = [''/blobs/sha1'' \<mapsto> 0], allocated = 1,
     mutexes = (\<lambda>_. \<lparr>readers = 0, writer = False\<rparr>)(0 := \<lparr>readers = 1, writer = False\<rparr>)\<rparr>)"
  by (simp add: ex_locked_def keepDirectoryLock_def getDirLock_def registry_init_def RLock_def Let_def)

theorem dirlock_registry_witness:
  "registry_ok (snd ex_locked) \<and>
   locksOut (snd ex_locked) = 1 \<and>
   dirLocks (snd ex_locked) ''/blobs/sha1'' = Some 0 \<and>
   mu (fst (deleteDirectoryLock ''/blobs/sha1'' (snd ex_locked))) = 0 \<and>
   locksOut (snd (deleteDirectoryLock ''/blobs/sha1'' (snd ex_locked))) = 2 \<and>
   locksOut (Unlock (fst ex_locked) (snd ex_locked)) = 0 \<and>
   dirLocks (Unlock (fst ex_locked) (snd ex_locked)) = Map.empty \<and>
   mu (fst (keepDirectoryLock ''/blobs/sha1'' (Unlock (fst ex_locked) (snd ex_locked)))) \<noteq> 0"
proof -
  have ok: "registry_ok (snd ex_locked)"
    by (simp add: ex_locked_eq registry_ok_def)
  have b: "dirLocks (snd ex_locked) ''/blobs/sha1'' = Some 0" and l: "locksOut (snd ex_locked) = 1"
    by (simp_all add: ex_locked_eq)
  show ?thesis
    using dirlock_registry [OF ok, of "''/blobs/sha1''" "fst ex_locked"] ok b l by simp
qed


section \<open>Properties of populate\<close>

lemma populate_attr_described:
  "populate_attr res a kv s =
     (case described_child res a kv of
        None \<Rightarrow> (Returns (), s)
      | Some obj \<Rightarrow>
          (case new obj s of (c, s1) \<Rightarrow> set_child a (drop (length camliPath) (fst kv)) c s1))"
  by (simp add: populate_attr_def described_child_def Let_def split: option.splits)





lemma populate_describe_fails:
  assumes "heap s a = Some (Dir n)" and "\<not> now < lastPop n + populateInterval"
  shows "populate a now (Inl err) s =
           (Returns None,
            s\<lparr>heap := (heap s)(a \<mapsto> Dir (n\<lparr>lastPop := now\<rparr>)),
              describes := describes s @ [\<lparr>BlobRef = permanode n, Depth = 3\<rparr>]\<rparr>)"
  using assms by (simp add: populate_def Let_def)

lemma populate_recent:
  assumes "heap s a = Some (Dir n)" and "now < lastPop n + populateInterval"
  shows "populate a now descr s = (Returns None, s)"
  using assms by (simp add: populate_def)





lemma populate_attr_sends_nothing:
  "describes (snd (populate_attr res a kv s)) = describes s \<and>
   uploads (snd (populate_attr res a kv s)) = uploads s"
  by (simp add: populate_attr_described new_def set_child_def
      split: option.splits mutFileOrDir.splits)

lemma populate_attrs_sends_nothing:
  "describes (snd (populate_attrs res a kvs s)) = describes s \<and>
   uploads (snd (populate_attrs res a kvs s)) = uploads s"
proof (induction kvs arbitrary: s)
  case Nil
  show ?case by simp
next
  case (Cons kv kvs)
  show ?case
  proof (cases "populate_attr res a kv s")
    case (Pair r s1)
    have s1: "describes s1 = describes s \<and> uploads s1 = uploads s"
      using populate_attr_sends_nothing [of res a kv s] Pair by simp
    show ?thesis
    proof (cases r)
      case (Returns u)
      then show ?thesis using Pair s1 Cons.IH [of s1] by simp
    next
      case (Panics msg)
      then show ?thesis using Pair s1 by simp
    qed
  qed
qed

lemma populate_end_sends_nothing:
  "describes (snd (case populate_attrs res a kvs s of
            (Panics msg, s3) \<Rightarrow> (Panics msg, s3)
          | (Returns _, s3) \<Rightarrow> (Returns None, s3))) = describes s \<and>
   uploads (snd (case populate_attrs res a kvs s of
            (Panics msg, s3) \<Rightarrow> (Panics msg, s3)
          | (Returns _, s3) \<Rightarrow> (Returns None, s3))) = uploads s"
  using populate_attrs_sends_nothing [of res a kvs s]
  by (cases "populate_attrs res a kvs s") (simp split: outcome.splits)

lemma populate_uploads: "uploads (snd (populate a now descr s)) = uploads s"
  by (simp add: populate_def Let_def populate_end_sends_nothing
      split: option.splits mutFileOrDir.splits sum.splits)

lemma populate_describes_due:
  assumes "heap s a = Some (Dir n)" and "\<not> now < lastPop n + populateInterval"
  shows "describes (snd (populate a now descr s)) =
           describes s @ [\<lparr>BlobRef = permanode n, Depth = 3\<rparr>]"
  using assms
  by (simp add: populate_def Let_def populate_end_sends_nothing split: option.splits sum.splits)

text \<open>The definitions to unfold when a function is run on the example tree.\<close>

lemmas ex_defs = ex_state_def ex_root_def ex_a_def ex_b_def ex_now_def ex_describe_def
  populateInterval_def newMutFile_def newMutDir_def

lemmas run_defs = child_at_def dir_at_def file_at_def lookup_child_def populate_def Let_def
  populate_attr_def HasPrefix_def camliPath_def Get_def new_def set_child_def Parse_def




text \<open>
  C4, as the code has it. A call of \<^verbatim>\<open>populate\<close> that is due and whose \<^verbatim>\<open>Describe\<close>
  returns an error returns success, leaves the children and every other node as they
  were, and has set \<^verbatim>\<open>lastPop\<close> to the time of the call (the assignment stands before
  the request). So a next call within the populate interval of that time returns at
  once, without a describe; the describe is retried by the first call at least one
  interval after the failed one.
\<close>

theorem populate_describe_error:
  assumes "heap s a = Some (Dir n)" and "\<not> now < lastPop n + populateInterval"
  shows "populate a now (Inl err) s =
           (Returns None,
            s\<lparr>heap := (heap s)(a \<mapsto> Dir (n\<lparr>lastPop := now\<rparr>)),
              describes := describes s @ [\<lparr>BlobRef = permanode n, Depth = 3\<rparr>]\<rparr>) \<and>
         (\<forall>now' descr'. now' < now + populateInterval \<longrightarrow>
            populate a now' descr' (snd (populate a now (Inl err) s)) =
              (Returns None, snd (populate a now (Inl err) s))) \<and>
         (\<forall>now' descr'. \<not> now' < now + populateInterval \<longrightarrow>
            describes (snd (populate a now' descr' (snd (populate a now (Inl err) s)))) =
              describes s @ [\<lparr>BlobRef = permanode n, Depth = 3\<rparr>, \<lparr>BlobRef = permanode n, Depth = 3\<rparr>])"
proof -
  let ?s1 = "s\<lparr>heap := (heap s)(a \<mapsto> Dir (n\<lparr>lastPop := now\<rparr>)),
              describes := describes s @ [\<lparr>BlobRef = permanode n, Depth = 3\<rparr>]\<rparr>"
  have e: "populate a now (Inl err) s = (Returns None, ?s1)"
    using assms by (rule populate_describe_fails)
  have h: "heap ?s1 a = Some (Dir (n\<lparr>lastPop := now\<rparr>))" by simp
  have c2: "\<forall>now' descr'. now' < now + populateInterval \<longrightarrow>
            populate a now' descr' ?s1 = (Returns None, ?s1)"
    using populate_recent [OF h] by simp
  have c3: "\<forall>now' descr'. \<not> now' < now + populateInterval \<longrightarrow>
            describes (snd (populate a now' descr' ?s1)) =
              describes s @ [\<lparr>BlobRef = permanode n, Depth = 3\<rparr>, \<lparr>BlobRef = permanode n, Depth = 3\<rparr>]"
    using populate_describes_due [OF h] by simp
  show ?thesis unfolding e using c2 c3 by simp
qed

text \<open>
  On the example tree: a failed describe at 40 s, no retry at 40 s + 1 ns, a retry at
  70 s.
\<close>

theorem populate_describe_error_witness:
  "heap ex_state 0 = Some (Dir ex_root) \<and> \<not> ex_now < lastPop ex_root + populateInterval \<and>
   fst (populate 0 ex_now (Inl ''offline'') ex_state) = Returns None \<and>
   map_option lastPop (dir_at (snd (populate 0 ex_now (Inl ''offline'') ex_state)) 0) = Some ex_now \<and>
   populate 0 (ex_now + 1) (Inr ex_describe) (snd (populate 0 ex_now (Inl ''offline'') ex_state)) =
     (Returns None, snd (populate 0 ex_now (Inl ''offline'') ex_state)) \<and>
   describes (snd (populate 0 (ex_now + populateInterval) (Inr ex_describe)
                         (snd (populate 0 ex_now (Inl ''offline'') ex_state)))) =
     [\<lparr>BlobRef = ''sha1-root'', Depth = 3\<rparr>, \<lparr>BlobRef = ''sha1-root'', Depth = 3\<rparr>]"
proof -
  have h1: "heap ex_state 0 = Some (Dir ex_root)" by (simp add: ex_defs)
  have h3: "\<not> ex_now < lastPop ex_root + populateInterval" by (simp add: ex_defs)
  have d: "describes ex_state = []" and pn: "permanode ex_root = ''sha1-root''"
    by (simp_all add: ex_defs)
  have soon: "ex_now + 1 < ex_now + populateInterval" by (simp add: ex_defs)
  have later: "\<not> ex_now + populateInterval < ex_now + populateInterval" by simp
  note t = populate_describe_error [OF h1 h3, of "''offline''"]
  have t1: "populate 0 ex_now (Inl ''offline'') ex_state =
           (Returns None,
            ex_state\<lparr>heap := (heap ex_state)(0 \<mapsto> Dir (ex_root\<lparr>lastPop := ex_now\<rparr>)),
              describes := describes ex_state @ [\<lparr>BlobRef = permanode ex_root, Depth = 3\<rparr>]\<rparr>)"
    using t by blast
  have t2: "populate 0 (ex_now + 1) (Inr ex_describe) (snd (populate 0 ex_now (Inl ''offline'') ex_state)) =
     (Returns None, snd (populate 0 ex_now (Inl ''offline'') ex_state))"
    using t soon by blast
  have t3: "describes (snd (populate 0 (ex_now + populateInterval) (Inr ex_describe)
                         (snd (populate 0 ex_now (Inl ''offline'') ex_state)))) =
     describes ex_state @ [\<lparr>BlobRef = permanode ex_root, Depth = 3\<rparr>, \<lparr>BlobRef = permanode ex_root, Depth = 3\<rparr>]"
    using t later by blast
  have t4: "map_option lastPop (dir_at (snd (populate 0 ex_now (Inl ''offline'') ex_state)) 0) = Some ex_now"
    unfolding t1 by (simp add: dir_at_def)
  show ?thesis using h1 h3 t1 t2 t3 t4 d pn by simp
qed

text \<open>
  C4 as the specification states it fails: the failed call moves \<^verbatim>\<open>lastPop\<close> from 0 to
  the time of the call, and the next call, a nanosecond later, issues no describe.
\<close>

theorem populate_describe_error_counterexample:
  "map_option lastPop (dir_at ex_state 0) = Some 0 \<and>
   fst (populate 0 ex_now (Inl ''offline'') ex_state) = Returns None \<and>
   map_option lastPop (dir_at (snd (populate 0 ex_now (Inl ''offline'') ex_state)) 0) = Some ex_now \<and>
   ex_now \<noteq> 0 \<and>
   describes (snd (populate 0 ex_now (Inl ''offline'') ex_state)) = [\<lparr>BlobRef = ''sha1-root'', Depth = 3\<rparr>] \<and>
   describes (snd (populate 0 (ex_now + 1) (Inr ex_describe)
                         (snd (populate 0 ex_now (Inl ''offline'') ex_state)))) =
     [\<lparr>BlobRef = ''sha1-root'', Depth = 3\<rparr>]"
  by (simp add: ex_defs run_defs)

section \<open>Properties of Remove and Rename\<close>

text \<open>
  C10. \<^verbatim>\<open>Remove\<close> of any name \<open>nm\<close> in any directory hands the claim del-attribute
  \<^verbatim>\<open>camliPath:nm\<close> on the directory's permanode to the client; if the upload succeeds it
  returns success, whether the children map binds \<open>nm\<close> or not (and the name is unbound
  afterwards); if the upload fails it returns \<^verbatim>\<open>EIO\<close> and leaves the nodes as they
  were. It never returns \<^verbatim>\<open>ENOENT\<close>.
\<close>

theorem Remove_never_not_found:
  assumes "heap s a = Some (Dir n)"
  shows "uploads (snd (Remove a nm up s)) =
           uploads s @ [NewDelAttributeClaim (permanode n) (camliPath @ nm)] \<and>
         (up = None \<longrightarrow> fst (Remove a nm up s) = Returns None \<and>
                         child_at (snd (Remove a nm up s)) a nm = None) \<and>
         (up \<noteq> None \<longrightarrow> fst (Remove a nm up s) = Returns (Some EIO) \<and>
                         heap (snd (Remove a nm up s)) = heap s) \<and>
         fst (Remove a nm up s) \<noteq> Returns (Some ENOENT)"
  using assms
  by (cases up; cases "children n")
     (simp_all add: Remove_def Let_def child_at_def dir_at_def lookup_child_def)

text \<open>On the example tree, for the name \<open>zz\<close>, which the root does not bind.\<close>

theorem Remove_never_not_found_witness:
  "heap ex_state 0 = Some (Dir ex_root) \<and> child_at ex_state 0 ''zz'' = None \<and>
   uploads (snd (Remove 0 ''zz'' None ex_state)) =
     [\<lparr>claimType = DelAttributeClaim, claimPermanode = ''sha1-root'',
       claimAttribute = ''camliPath:zz'', claimValue = [], claimDate = None\<rparr>] \<and>
   fst (Remove 0 ''zz'' None ex_state) = Returns None \<and>
   fst (Remove 0 ''zz'' (Some ''upload failed'') ex_state) = Returns (Some EIO) \<and>
   fst (Remove 0 ''zz'' (Some ''upload failed'') ex_state) \<noteq> Returns (Some ENOENT)"
proof -
  have h: "heap ex_state 0 = Some (Dir ex_root)" by (simp add: ex_defs)
  have z: "child_at ex_state 0 ''zz'' = None" by (simp add: ex_defs run_defs)
  have u: "uploads ex_state = []" and pn: "permanode ex_root = ''sha1-root''"
    by (simp_all add: ex_defs)
  show ?thesis
    using Remove_never_not_found [OF h, of "''zz''" None]
      Remove_never_not_found [OF h, of "''zz''" "Some ''upload failed''"] h z u pn
    by (simp add: NewDelAttributeClaim_def camliPath_def)
qed

lemma rename_move_uploads: "uploads (snd (rename_move a oldName a2 newName tgt s)) = uploads s"
  by (simp add: rename_move_def set_child_def Let_def
      split: option.splits mutFileOrDir.splits prod.splits outcome.splits)

lemma Rename_not_dir:
  "\<not> is_mutDir s newDir \<Longrightarrow> Rename a oldName newName newDir w s = (Returns (Some EIO), s)"
  by (simp add: Rename_def is_mutDir_def dir_at_def split: option.splits mutFileOrDir.splits)

lemma Rename_populated:
  assumes "is_mutDir s newDir" and "rename_populates_ok a newDir w s"
    and "heap (rename_populated a newDir w s) a = Some (Dir n)"
    and "heap (rename_populated a newDir w s) newDir = Some (Dir n2)"
  shows "Rename a oldName newName newDir w s =
    (let s2 = rename_populated a newDir w s in
     case lookup_child n oldName of
       None \<Rightarrow> (Returns (Some ENOENT), s2)
     | Some tgt \<Rightarrow>
         (case permanodeString s2 tgt of
            None \<Rightarrow> (Panics nil_deref, s2)
          | Some tgtRef \<Rightarrow>
              let now = now_claim w;
                  cl = SetClaimDate now
                         (NewSetAttributeClaim (permanode n2) (camliPath @ newName) tgtRef);
                  s3 = s2\<lparr>uploads := uploads s2 @ [cl]\<rparr>
              in
              (case upload_link w of
                 Some err \<Rightarrow> (Returns (Some EIO), s3)
               | None \<Rightarrow>
                   let delClaim = SetClaimDate now
                         (NewDelAttributeClaim (permanode n) (camliPath @ oldName));
                       s4 = s3\<lparr>uploads := uploads s3 @ [delClaim]\<rparr>
                   in
                   (case upload_unlink w of
                      Some err \<Rightarrow> (Returns (Some EIO), s4)
                    | None \<Rightarrow> rename_move a oldName newDir newName tgt s4))))"
proof -
  obtain n0 where d: "heap s newDir = Some (Dir n0)"
    using assms(1) by (auto simp: is_mutDir_def dir_at_def split: option.splits mutFileOrDir.splits)
  obtain s1 where p1: "populate a (now_src w) (describe_src w) s = (Returns None, s1)"
    using assms(2) by (cases "populate a (now_src w) (describe_src w) s") (simp add: rename_populates_ok_def)
  obtain s2 where p2: "populate newDir (now_dst w) (describe_dst w) s1 = (Returns None, s2)"
    using assms(2) p1 by (cases "populate newDir (now_dst w) (describe_dst w) s1") (simp add: rename_populates_ok_def)
  have e: "rename_populated a newDir w s = s2" using p1 p2 by (simp add: rename_populated_def)
  show ?thesis
    using assms(3,4) unfolding e by (simp add: Rename_def d p1 p2 Let_def)
qed

text \<open>
  C5, as the code has it. If \<open>newDir\<close> is not a directory node of this file system,
  \<^verbatim>\<open>Rename\<close> returns \<^verbatim>\<open>EIO\<close> and changes nothing (no claim is sent). If both populates
  return success and the source does not bind the old name, it returns \<^verbatim>\<open>ENOENT\<close> and
  has sent no claim. If the source binds the old name to a node, it takes one claim
  date and sends the claim set-attribute \<^verbatim>\<open>camliPath:newName\<close> = the target's permanode
  on the destination's permanode first; the second claim, del-attribute
  \<^verbatim>\<open>camliPath:oldName\<close> on the source's permanode, is sent only if the upload of the
  first succeeded. Both carry the one claim date, and \<^verbatim>\<open>Rename\<close> returns \<^verbatim>\<open>EIO\<close> when
  either upload fails: after one claim when the first fails, after two otherwise.
\<close>

theorem Rename_claims:
  "(\<not> is_mutDir s newDir \<longrightarrow>
      Rename a oldName newName newDir w s = (Returns (Some EIO), s)) \<and>
   (is_mutDir s newDir \<and> rename_populates_ok a newDir w s \<and>
    heap (rename_populated a newDir w s) a = Some (Dir n) \<and>
    heap (rename_populated a newDir w s) newDir = Some (Dir n2) \<and>
    lookup_child n oldName = None \<longrightarrow>
      fst (Rename a oldName newName newDir w s) = Returns (Some ENOENT) \<and>
      uploads (snd (Rename a oldName newName newDir w s)) = uploads s) \<and>
   (is_mutDir s newDir \<and> rename_populates_ok a newDir w s \<and>
    heap (rename_populated a newDir w s) a = Some (Dir n) \<and>
    heap (rename_populated a newDir w s) newDir = Some (Dir n2) \<and>
    lookup_child n oldName = Some tgt \<and>
    permanodeString (rename_populated a newDir w s) tgt = Some tgtRef \<longrightarrow>
      uploads (snd (Rename a oldName newName newDir w s)) =
        uploads s @
        [\<lparr>claimType = SetAttributeClaim, claimPermanode = permanode n2,
          claimAttribute = camliPath @ newName, claimValue = tgtRef,
          claimDate = Some (now_claim w)\<rparr>] @
        (if upload_link w = None
         then [\<lparr>claimType = DelAttributeClaim, claimPermanode = permanode n,
                 claimAttribute = camliPath @ oldName, claimValue = [],
                 claimDate = Some (now_claim w)\<rparr>]
         else []) \<and>
      (upload_link w \<noteq> None \<or> upload_unlink w \<noteq> None \<longrightarrow>
         fst (Rename a oldName newName newDir w s) = Returns (Some EIO)))"
proof -
  have u2: "uploads (rename_populated a newDir w s) = uploads s"
    by (simp add: rename_populated_def populate_uploads)
  have c1: "\<not> is_mutDir s newDir \<longrightarrow>
      Rename a oldName newName newDir w s = (Returns (Some EIO), s)"
    by (simp add: Rename_not_dir)
  have c2: "is_mutDir s newDir \<and> rename_populates_ok a newDir w s \<and>
    heap (rename_populated a newDir w s) a = Some (Dir n) \<and>
    heap (rename_populated a newDir w s) newDir = Some (Dir n2) \<and>
    lookup_child n oldName = None \<longrightarrow>
      fst (Rename a oldName newName newDir w s) = Returns (Some ENOENT) \<and>
      uploads (snd (Rename a oldName newName newDir w s)) = uploads s"
    using u2 by (auto simp: Rename_populated Let_def)
  have c3: "is_mutDir s newDir \<and> rename_populates_ok a newDir w s \<and>
    heap (rename_populated a newDir w s) a = Some (Dir n) \<and>
    heap (rename_populated a newDir w s) newDir = Some (Dir n2) \<and>
    lookup_child n oldName = Some tgt \<and>
    permanodeString (rename_populated a newDir w s) tgt = Some tgtRef \<longrightarrow>
      uploads (snd (Rename a oldName newName newDir w s)) =
        uploads s @
        [\<lparr>claimType = SetAttributeClaim, claimPermanode = permanode n2,
          claimAttribute = camliPath @ newName, claimValue = tgtRef,
          claimDate = Some (now_claim w)\<rparr>] @
        (if upload_link w = None
         then [\<lparr>claimType = DelAttributeClaim, claimPermanode = permanode n,
                 claimAttribute = camliPath @ oldName, claimValue = [],
                 claimDate = Some (now_claim w)\<rparr>]
         else []) \<and>
      (upload_link w \<noteq> None \<or> upload_unlink w \<noteq> None \<longrightarrow>
         fst (Rename a oldName newName newDir w s) = Returns (Some EIO))"
  proof (intro impI, elim conjE)
    assume a: "is_mutDir s newDir" "rename_populates_ok a newDir w s"
      "heap (rename_populated a newDir w s) a = Some (Dir n)"
      "heap (rename_populated a newDir w s) newDir = Some (Dir n2)"
      "lookup_child n oldName = Some tgt"
      "permanodeString (rename_populated a newDir w s) tgt = Some tgtRef"
    show "uploads (snd (Rename a oldName newName newDir w s)) =
        uploads s @
        [\<lparr>claimType = SetAttributeClaim, claimPermanode = permanode n2,
          claimAttribute = camliPath @ newName, claimValue = tgtRef,
          claimDate = Some (now_claim w)\<rparr>] @
        (if upload_link w = None
         then [\<lparr>claimType = DelAttributeClaim, claimPermanode = permanode n,
                 claimAttribute = camliPath @ oldName, claimValue = [],
                 claimDate = Some (now_claim w)\<rparr>]
         else []) \<and>
      (upload_link w \<noteq> None \<or> upload_unlink w \<noteq> None \<longrightarrow>
         fst (Rename a oldName newName newDir w s) = Returns (Some EIO))"
      unfolding Rename_populated [OF a(1,2,3,4)]
      using a(5,6) u2
      by (cases "upload_link w"; cases "upload_unlink w")
         (simp_all add: Let_def rename_move_uploads SetClaimDate_def NewSetAttributeClaim_def
            NewDelAttributeClaim_def)
  qed
  show ?thesis using c1 c2 c3 by blast
qed

lemma ex_rename_populated:
  "rename_populated 0 0 ex_rename_world ex_state =
     ex_state\<lparr>heap := (heap ex_state)(0 \<mapsto> Dir (ex_root\<lparr>lastPop := ex_now\<rparr>)),
              describes := [\<lparr>BlobRef = ''sha1-root'', Depth = 3\<rparr>]\<rparr> \<and>
   rename_populates_ok 0 0 ex_rename_world ex_state"
  by (simp add: rename_populated_def rename_populates_ok_def ex_rename_world_def ex_defs run_defs)

lemma ex_rename_populated_fail:
  "rename_populated 0 0 (ex_rename_world\<lparr>upload_link := Some ''upload failed''\<rparr>) ex_state =
     ex_state\<lparr>heap := (heap ex_state)(0 \<mapsto> Dir (ex_root\<lparr>lastPop := ex_now\<rparr>)),
              describes := [\<lparr>BlobRef = ''sha1-root'', Depth = 3\<rparr>]\<rparr> \<and>
   rename_populates_ok 0 0 (ex_rename_world\<lparr>upload_link := Some ''upload failed''\<rparr>) ex_state"
  by (simp add: rename_populated_def rename_populates_ok_def ex_rename_world_def ex_defs run_defs)

text \<open>
  On the example tree, with both describes failing: a rename into the file node at
  address 1, a rename of the unbound name \<open>nope\<close>, a rename of \<open>a\<close> to \<open>z\<close> with both
  uploads succeeding, and the same with the first upload failing.
\<close>

theorem Rename_claims_witness:
  "\<not> is_mutDir ex_state 1 \<and>
   Rename 0 ''a'' ''z'' 1 ex_rename_world ex_state = (Returns (Some EIO), ex_state) \<and>
   is_mutDir ex_state 0 \<and> rename_populates_ok 0 0 ex_rename_world ex_state \<and>
   child_at (rename_populated 0 0 ex_rename_world ex_state) 0 ''nope'' = None \<and>
   fst (Rename 0 ''nope'' ''z'' 0 ex_rename_world ex_state) = Returns (Some ENOENT) \<and>
   uploads (snd (Rename 0 ''nope'' ''z'' 0 ex_rename_world ex_state)) = [] \<and>
   child_at (rename_populated 0 0 ex_rename_world ex_state) 0 ''a'' = Some 1 \<and>
   permanodeString (rename_populated 0 0 ex_rename_world ex_state) 1 = Some ''sha1-a'' \<and>
   uploads (snd (Rename 0 ''a'' ''z'' 0 ex_rename_world ex_state)) =
     [\<lparr>claimType = SetAttributeClaim, claimPermanode = ''sha1-root'',
       claimAttribute = ''camliPath:z'', claimValue = ''sha1-a'',
       claimDate = Some (ex_now + 2)\<rparr>,
      \<lparr>claimType = DelAttributeClaim, claimPermanode = ''sha1-root'',
       claimAttribute = ''camliPath:a'', claimValue = [],
       claimDate = Some (ex_now + 2)\<rparr>] \<and>
   uploads (snd (Rename 0 ''a'' ''z'' 0 (ex_rename_world\<lparr>upload_link := Some ''upload failed''\<rparr>) ex_state)) =
     [\<lparr>claimType = SetAttributeClaim, claimPermanode = ''sha1-root'',
       claimAttribute = ''camliPath:z'', claimValue = ''sha1-a'',
       claimDate = Some (ex_now + 2)\<rparr>] \<and>
   fst (Rename 0 ''a'' ''z'' 0 (ex_rename_world\<lparr>upload_link := Some ''upload failed''\<rparr>) ex_state) =
     Returns (Some EIO)"
proof -
  let ?n = "ex_root\<lparr>lastPop := ex_now\<rparr>"
  let ?wf = "ex_rename_world\<lparr>upload_link := Some ''upload failed''\<rparr>"
  have nd: "\<not> is_mutDir ex_state 1" and d: "is_mutDir ex_state 0"
    by (simp_all add: is_mutDir_def ex_defs run_defs)
  have h: "heap (rename_populated 0 0 ex_rename_world ex_state) 0 = Some (Dir ?n)"
    and hf: "heap (rename_populated 0 0 ?wf ex_state) 0 = Some (Dir ?n)"
    by (simp_all add: ex_rename_populated ex_rename_populated_fail)
  have ok: "rename_populates_ok 0 0 ex_rename_world ex_state"
    and okf: "rename_populates_ok 0 0 ?wf ex_state"
    by (simp_all add: ex_rename_populated ex_rename_populated_fail)
  have l0: "lookup_child ?n ''nope'' = None" and l1: "lookup_child ?n ''a'' = Some 1"
    by (simp_all add: lookup_child_def ex_defs)
  have ps: "permanodeString (rename_populated 0 0 ex_rename_world ex_state) 1 = Some ''sha1-a''"
    unfolding ex_rename_populated [THEN conjunct1] by (simp add: permanodeString_def ex_defs)
  have psf: "permanodeString (rename_populated 0 0 ?wf ex_state) 1 = Some ''sha1-a''"
    unfolding ex_rename_populated_fail [THEN conjunct1] by (simp add: permanodeString_def ex_defs)
  have misc: "uploads ex_state = []" "permanode ?n = ''sha1-root''"
    "now_claim ex_rename_world = ex_now + 2" "now_claim ?wf = ex_now + 2"
    "upload_link ex_rename_world = None" "upload_link ?wf = Some ''upload failed''"
    by (simp_all add: ex_defs ex_rename_world_def)
  have w1: "Rename 0 ''a'' ''z'' 1 ex_rename_world ex_state = (Returns (Some EIO), ex_state)"
    using Rename_claims [of ex_state 1 0 "''a''" "''z''" ex_rename_world] nd by blast
  have w2: "fst (Rename 0 ''nope'' ''z'' 0 ex_rename_world ex_state) = Returns (Some ENOENT) \<and>
      uploads (snd (Rename 0 ''nope'' ''z'' 0 ex_rename_world ex_state)) = uploads ex_state"
    using Rename_claims [of ex_state 0 0 "''nope''" "''z''" ex_rename_world ?n ?n] d ok h l0
    by blast
  have w3: "uploads (snd (Rename 0 ''a'' ''z'' 0 ex_rename_world ex_state)) =
        uploads ex_state @
        [\<lparr>claimType = SetAttributeClaim, claimPermanode = permanode ?n,
          claimAttribute = camliPath @ ''z'', claimValue = ''sha1-a'',
          claimDate = Some (now_claim ex_rename_world)\<rparr>] @
        (if upload_link ex_rename_world = None
         then [\<lparr>claimType = DelAttributeClaim, claimPermanode = permanode ?n,
                 claimAttribute = camliPath @ ''a'', claimValue = [],
                 claimDate = Some (now_claim ex_rename_world)\<rparr>]
         else [])"
    using Rename_claims [of ex_state 0 0 "''a''" "''z''" ex_rename_world ?n ?n 1 "''sha1-a''"]
      d ok h l1 ps by blast
  have w4: "uploads (snd (Rename 0 ''a'' ''z'' 0 ?wf ex_state)) =
        uploads ex_state @
        [\<lparr>claimType = SetAttributeClaim, claimPermanode = permanode ?n,
          claimAttribute = camliPath @ ''z'', claimValue = ''sha1-a'',
          claimDate = Some (now_claim ?wf)\<rparr>] @
        (if upload_link ?wf = None
         then [\<lparr>claimType = DelAttributeClaim, claimPermanode = permanode ?n,
                 claimAttribute = camliPath @ ''a'', claimValue = [],
                 claimDate = Some (now_claim ?wf)\<rparr>]
         else []) \<and>
       (upload_link ?wf \<noteq> None \<or> upload_unlink ?wf \<noteq> None \<longrightarrow>
         fst (Rename 0 ''a'' ''z'' 0 ?wf ex_state) = Returns (Some EIO))"
    using Rename_claims [of ex_state 0 0 "''a''" "''z''" ?wf ?n ?n 1 "''sha1-a''"]
      d okf hf l1 psf by blast
  have c0: "child_at (rename_populated 0 0 ex_rename_world ex_state) 0 ''nope'' = None"
    and c1: "child_at (rename_populated 0 0 ex_rename_world ex_state) 0 ''a'' = Some 1"
    using h l0 l1 by (simp_all add: child_at_def dir_at_def)
  show ?thesis
    using nd d ok w1 w2 w3 w4 c0 c1 ps misc by (simp add: camliPath_def)
qed

text \<open>
  C5 as the specification states it fails: a \<^verbatim>\<open>Rename\<close> that reaches claim emission and
  whose first upload fails has sent one claim, not two.
\<close>

theorem Rename_one_claim_counterexample:
  "is_mutDir ex_state 0 \<and>
   child_at (rename_populated 0 0 (ex_rename_world\<lparr>upload_link := Some ''upload failed''\<rparr>) ex_state) 0 ''a'' = Some 1 \<and>
   fst (Rename 0 ''a'' ''z'' 0 (ex_rename_world\<lparr>upload_link := Some ''upload failed''\<rparr>) ex_state) =
     Returns (Some EIO) \<and>
   uploads (snd (Rename 0 ''a'' ''z'' 0 (ex_rename_world\<lparr>upload_link := Some ''upload failed''\<rparr>) ex_state)) =
     [\<lparr>claimType = SetAttributeClaim, claimPermanode = ''sha1-root'',
       claimAttribute = ''camliPath:z'', claimValue = ''sha1-a'',
       claimDate = Some (ex_now + 2)\<rparr>] \<and>
   length (uploads (snd (Rename 0 ''a'' ''z'' 0 (ex_rename_world\<lparr>upload_link := Some ''upload failed''\<rparr>) ex_state))) \<noteq> 2"
  by (simp add: Rename_def is_mutDir_def rename_populated_def ex_rename_world_def permanodeString_def
      SetClaimDate_def NewSetAttributeClaim_def ex_defs run_defs)

section \<open>Properties of the write handle\<close>

text \<open>
  The two failing exits of \<^verbatim>\<open>Release\<close> return \<^verbatim>\<open>EIO\<close> at once: the handle and the state,
  with the scratch file in it, are as before the call.
\<close>

lemma Release_seek_fails:
  "tmp h = Some t \<Longrightarrow> seek w = Some err \<Longrightarrow> Release h w s = (Returns (Some EIO, h), s)"
  by (simp add: Release_def)

lemma Release_upload_fails:
  "tmp h = Some t \<Longrightarrow> seek w = None \<Longrightarrow> heap s (f h) = Some (File n) \<Longrightarrow> writeFile w = Inl err \<Longrightarrow>
   Release h w s = (Returns (Some EIO, h), s)"
  by (simp add: Release_def)

text \<open>
  When the seek and the upload of the file succeed, \<^verbatim>\<open>Release\<close> returns success whatever
  the upload of the claim inside \<^verbatim>\<open>setContent\<close> returns; the handle is released, the
  scratch file closed and removed, and the node has the new content and size.
\<close>

lemma Release_commits:
  assumes "tmp h = Some t" and "seek w = None" and "heap s (f h) = Some (File n)"
    and "writeFile w = Inr br"
  shows "fst (Release h w s) = Returns (None, h\<lparr>tmp := None\<rparr>) \<and>
         released (h\<lparr>tmp := None\<rparr>) \<and>
         scratch_gone (Name t) (snd (Release h w s)) \<and>
         file_at (snd (Release h w s)) (f h) =
           Some (n\<lparr>content := Some br, size' := word_of_nat (length (contents t))\<rparr>) \<and>
         uploads (snd (Release h w s)) =
           uploads s @ [NewSetAttributeClaim (permanode n) ''camliContent'' br]"
  using assms
  by (simp add: Release_def setContent_def Let_def released_def scratch_gone_def Close_def
      os_Remove_def file_at_def)

text \<open>
  \<^verbatim>\<open>newHandle\<close> fails only with \<^verbatim>\<open>EIO\<close>, and then no scratch file is left: none was
  made when \<^verbatim>\<open>TempFile\<close> failed, and the one made is closed and removed when the copy
  failed.
\<close>

lemma newHandle_failure_releases_scratch:
  assumes "fst (newHandle n tempfile body s) = Inl e"
  shows "e = EIO \<and>
         (case tempfile of
            Inl err \<Rightarrow> snd (newHandle n tempfile body s) = s
          | Inr nm \<Rightarrow> scratch_gone nm (snd (newHandle n tempfile body s)))"
  using assms
  by (auto simp: newHandle_def Let_def scratch_gone_def Close_def os_Remove_def
      split: sum.splits option.splits prod.splits)

text \<open>
  C2 on the code. The handle on \<open>a\<close> holds the open scratch file \<open>camli-1\<close>. When the
  seek fails, and when the upload of the file fails, \<^verbatim>\<open>Release\<close> returns \<^verbatim>\<open>EIO\<close> and
  leaves everything as it was: the handle is not marked released (its \<^verbatim>\<open>tmp\<close> is still
  set), and the scratch file is still open and still in the temp directory.
\<close>

theorem Release_failure_leaks_scratch:
  "tmp ex_handle = Some \<lparr>Name = ''camli-1'', contents = [104, 101, 108]\<rparr> \<and>
   Release ex_handle \<lparr>seek = Some ''seek failed'', writeFile = Inr ''sha1-new'', upload_content = None\<rparr>
     ex_state = (Returns (Some EIO, ex_handle), ex_state) \<and>
   Release ex_handle \<lparr>seek = None, writeFile = Inl ''upload failed'', upload_content = None\<rparr>
     ex_state = (Returns (Some EIO, ex_handle), ex_state) \<and>
   \<not> released ex_handle \<and>
   ''camli-1'' \<in> set (openFiles ex_state) \<and> ''camli-1'' \<in> set (tempdir ex_state) \<and>
   \<not> scratch_gone ''camli-1'' ex_state"
  by (simp add: Release_def ex_handle_def released_def scratch_gone_def ex_defs)

text \<open>
  C3 on the code. The node \<open>a\<close> has no content and size 5. When the upload of the
  \<^verbatim>\<open>camliContent\<close> claim fails, \<^verbatim>\<open>setContent\<close> returns the error, but \<^verbatim>\<open>Release\<close> drops it
  and returns success, and the node has the new content and the new size 3.
\<close>

theorem Release_ignores_setContent_error:
  "file_at ex_state 1 = Some ex_a \<and> content ex_a = None \<and> size' ex_a = 5 \<and>
   fst (setContent 1 ''sha1-new'' 3 (Some ''upload failed'') ex_state) = Returns (Some ''upload failed'') \<and>
   fst (Release ex_handle \<lparr>seek = None, writeFile = Inr ''sha1-new'', upload_content = Some ''upload failed''\<rparr>
          ex_state) = Returns (None, ex_handle\<lparr>tmp := None\<rparr>) \<and>
   file_at (snd (Release ex_handle
          \<lparr>seek = None, writeFile = Inr ''sha1-new'', upload_content = Some ''upload failed''\<rparr> ex_state)) 1 =
     Some (ex_a\<lparr>content := Some ''sha1-new'', size' := 3\<rparr>)"
  by (simp add: Release_def setContent_def Let_def ex_handle_def file_at_def Close_def os_Remove_def ex_defs)

end
